theory Spec2Isabelle
  imports Main
begin

section \<open>JnbRelay: a TLS-terminating reverse proxy (main.go)\<close>

text \<open>
  The program builds one \<^verbatim>\<open>httputil.ReverseProxy\<close> and customises three hooks of it:
  \<^verbatim>\<open>proxy.Director\<close>, \<^verbatim>\<open>proxy.ModifyResponse\<close> and \<^verbatim>\<open>proxy.ErrorHandler\<close>.
  The hooks are closures over \<^verbatim>\<open>target\<close>; they mutate the request, the response and the
  response writer in place. Here every hook is a function that takes the object it
  mutates and returns the updated one. Go strings are byte strings: \<^typ>\<open>string\<close>.
  Two functions of the standard library decide what the hooks work with and are
  modelled with them: \<^verbatim>\<open>url.Parse\<close>, which makes \<^verbatim>\<open>target\<close> of the configuration, and
  \<^verbatim>\<open>Transport.RoundTrip\<close>, whose error the error handler receives.
\<close>

subsection \<open>Data model\<close>

text \<open>\<^verbatim>\<open>type Config struct\<close> of main.go. Go's \<^verbatim>\<open>int\<close> is modelled by \<^typ>\<open>int\<close>.\<close>

record Config =
  Host :: string
  Port :: int
  ProxyHost :: string
  ProxyPort :: int
  CertFile :: string
  KeyFile :: string

text \<open>
  \<^verbatim>\<open>http.Header\<close> is \<^verbatim>\<open>map[string][]string\<close>: a key that is absent has no entry, a
  key that is present holds the list of its values in the order they were added.
\<close>

type_synonym header = "string \<rightharpoonup> string list"

text \<open>The fields of \<^verbatim>\<open>url.URL\<close>, \<^verbatim>\<open>http.Request\<close> and \<^verbatim>\<open>http.Response\<close> that an
  exchange carries. The field \<^verbatim>\<open>Host\<close> exists in both \<^verbatim>\<open>url.URL\<close> and
  \<^verbatim>\<open>http.Request\<close>, hence the prefixes.\<close>

record url =
  url_Scheme :: string
  url_Host :: string
  url_Path :: string
  url_RawQuery :: string

record request =
  req_Method :: string
  req_URL :: url
  req_Host :: string
  req_Header :: header
  req_Body :: string
  req_ContentLength :: int
  req_RemoteAddr :: string

record response =
  resp_StatusCode :: int
  resp_Header :: header
  resp_Body :: string
  resp_Request :: request

text \<open>Go's \<^verbatim>\<open>error\<close> interface: a value with a message; \<^verbatim>\<open>nil\<close> is \<^const>\<open>None\<close>.\<close>

datatype error = Error string

subsection \<open>Header keys: \<^verbatim>\<open>textproto.CanonicalMIMEHeaderKey\<close>\<close>

text \<open>
  \<^verbatim>\<open>Header.Add\<close>, \<^verbatim>\<open>Header.Get\<close> and \<^verbatim>\<open>Header.Set\<close> canonicalise the key they are given:
  a key with a byte that is not a token byte is returned as it is; otherwise the first
  letter and every letter after a hyphen become upper case and all other letters lower
  case. So the key \<^verbatim>\<open>X-Real-IP\<close> of the source is stored as \<^verbatim>\<open>X-Real-Ip\<close>.
\<close>

definition lowerLetters :: string where
  "lowerLetters = ''abcdefghijklmnopqrstuvwxyz''"

definition upperLetters :: string where
  "upperLetters = ''ABCDEFGHIJKLMNOPQRSTUVWXYZ''"

definition toUpper :: "char \<Rightarrow> char" where
  "toUpper c = (case map_of (zip lowerLetters upperLetters) c of Some u \<Rightarrow> u | None \<Rightarrow> c)"

definition toLower :: "char \<Rightarrow> char" where
  "toLower c = (case map_of (zip upperLetters lowerLetters) c of Some l \<Rightarrow> l | None \<Rightarrow> c)"

definition validHeaderFieldByte :: "char \<Rightarrow> bool" where
  "validHeaderFieldByte c \<longleftrightarrow>
     c \<in> set lowerLetters \<or> c \<in> set upperLetters \<or> c \<in> set ''0123456789'' \<or>
     c \<in> set ''!#$%&*+-.^_|~'' \<or> c = CHR 0x27 \<or> c = CHR 0x60"

fun canonicalize :: "bool \<Rightarrow> string \<Rightarrow> string" where
  "canonicalize upper [] = []"
| "canonicalize upper (c # cs) =
     (let c' = (if upper then toUpper c else toLower c)
      in c' # canonicalize (c' = CHR ''-'') cs)"

definition CanonicalMIMEHeaderKey :: "string \<Rightarrow> string" where
  "CanonicalMIMEHeaderKey s = (if list_all validHeaderFieldByte s then canonicalize True s else s)"

text \<open>The index expression \<^verbatim>\<open>h[k]\<close>: the values of a key, none for an absent key;
  and \<^verbatim>\<open>h.has(k)\<close>: whether the key is present.\<close>

definition header_values :: "header \<Rightarrow> string \<Rightarrow> string list" where
  "header_values h k = (case h k of None \<Rightarrow> [] | Some vs \<Rightarrow> vs)"


text \<open>\<^verbatim>\<open>h.Add(key, value)\<close> is \<^verbatim>\<open>h[key] = append(h[key], value)\<close> on the canonical key;
  \<^verbatim>\<open>h.Get(key)\<close> is the first value of the canonical key, or the empty string;
  \<^verbatim>\<open>h.Set(key, value)\<close> replaces the values of the canonical key by the one value.\<close>

definition header_Add :: "header \<Rightarrow> string \<Rightarrow> string \<Rightarrow> header" where
  "header_Add h key v =
     (let k = CanonicalMIMEHeaderKey key
      in h(k \<mapsto> header_values h k @ [v]))"

definition header_Get :: "header \<Rightarrow> string \<Rightarrow> string" where
  "header_Get h key =
     (case header_values h (CanonicalMIMEHeaderKey key) of
        [] \<Rightarrow> ''''
      | v # _ \<Rightarrow> v)"

definition header_Set :: "header \<Rightarrow> string \<Rightarrow> string \<Rightarrow> header" where
  "header_Set h key v = h(CanonicalMIMEHeaderKey key \<mapsto> [v])"

subsection \<open>The upstream target\<close>

text \<open>\<^verbatim>\<open>%d\<close> of \<^verbatim>\<open>fmt.Sprintf\<close>: the decimal digits, with a minus sign below zero.\<close>

fun digits :: "nat \<Rightarrow> string" where
  "digits n =
     (if n < 10 then [''0123456789'' ! n]
      else digits (n div 10) @ [''0123456789'' ! (n mod 10)])"

declare digits.simps [simp del]

definition itoa :: "int \<Rightarrow> string" where
  "itoa i = (if i < 0 then CHR ''-'' # digits (nat (- i)) else digits (nat i))"

text \<open>\<^verbatim>\<open>targetURL := fmt.Sprintf("http://%s:%d", config.ProxyHost, config.ProxyPort)\<close>\<close>

definition targetURL :: "Config \<Rightarrow> string" where
  "targetURL config = ''http://'' @ ProxyHost config @ '':'' @ itoa (ProxyPort config)"

subsection \<open>\<^verbatim>\<open>url.Parse\<close>\<close>

text \<open>
  \<^verbatim>\<open>target, err := url.Parse(targetURL)\<close> calls package \<^verbatim>\<open>net/url\<close> of the Go standard
  library. The functions below follow \<^verbatim>\<open>Parse\<close>, \<^verbatim>\<open>parse\<close>, \<^verbatim>\<open>getScheme\<close>,
  \<^verbatim>\<open>parseAuthority\<close>, \<^verbatim>\<open>parseHost\<close>, \<^verbatim>\<open>validOptionalPort\<close>, \<^verbatim>\<open>validUserinfo\<close>,
  \<^verbatim>\<open>unescape\<close> and \<^verbatim>\<open>shouldEscape\<close> of that package, for the fields of the URL that
  the proxy reads. A returned error is \<^const>\<open>None\<close>.

  First the helpers on byte strings: \<^verbatim>\<open>strings.HasPrefix\<close>, \<^verbatim>\<open>strings.HasSuffix\<close>, the
  two halves of \<^verbatim>\<open>strings.Cut\<close> at the first occurrence of a byte (everything and nothing
  when the byte does not occur), and the two parts around the last occurrence of a byte
  (\<^verbatim>\<open>strings.LastIndex\<close>).
\<close>

definition HasPrefix :: "string \<Rightarrow> string \<Rightarrow> bool" where
  "HasPrefix s pre \<longleftrightarrow> take (length pre) s = pre"

definition HasSuffix :: "string \<Rightarrow> string \<Rightarrow> bool" where
  "HasSuffix s suf \<longleftrightarrow> length suf \<le> length s \<and> drop (length s - length suf) s = suf"

definition cut_before :: "char \<Rightarrow> string \<Rightarrow> string" where
  "cut_before sep s = takeWhile (\<lambda>c. c \<noteq> sep) s"

definition cut_after :: "char \<Rightarrow> string \<Rightarrow> string" where
  "cut_after sep s = drop 1 (dropWhile (\<lambda>c. c \<noteq> sep) s)"

definition before_last :: "char \<Rightarrow> string \<Rightarrow> string" where
  "before_last sep s = rev (drop 1 (dropWhile (\<lambda>c. c \<noteq> sep) (rev s)))"

definition after_last :: "char \<Rightarrow> string \<Rightarrow> string" where
  "after_last sep s = rev (takeWhile (\<lambda>c. c \<noteq> sep) (rev s))"

definition isAlpha :: "char \<Rightarrow> bool" where
  "isAlpha c \<longleftrightarrow> c \<in> set lowerLetters \<or> c \<in> set upperLetters"

definition isDigit :: "char \<Rightarrow> bool" where
  "isDigit c \<longleftrightarrow> c \<in> set ''0123456789''"

text \<open>\<^verbatim>\<open>stringContainsCTLByte\<close> looks for a byte below the space or the byte 0x7f.\<close>

definition isCTL :: "char \<Rightarrow> bool" where
  "isCTL c \<longleftrightarrow> (of_char c :: nat) < 32 \<or> (of_char c :: nat) = 127"

text \<open>
  \<^verbatim>\<open>getScheme\<close>: the loop over the bytes of \<^verbatim>\<open>rawURL\<close>. The second argument is
  \<^verbatim>\<open>rawURL[:i]\<close>, the third what is left from position \<^verbatim>\<open>i\<close> on. The result is the
  scheme and the rest; a colon in the first position is the error
  \<^verbatim>\<open>missing protocol scheme\<close>.
\<close>

fun getScheme_loop :: "string \<Rightarrow> string \<Rightarrow> string \<Rightarrow> (string \<times> string) option" where
  "getScheme_loop rawURL pre [] = Some ('''', rawURL)"
| "getScheme_loop rawURL pre (c # cs) =
     (if isAlpha c then getScheme_loop rawURL (pre @ [c]) cs
      else if isDigit c \<or> c = CHR ''+'' \<or> c = CHR ''-'' \<or> c = CHR ''.'' then
        (if pre = [] then Some ('''', rawURL) else getScheme_loop rawURL (pre @ [c]) cs)
      else if c = CHR '':'' then
        (if pre = [] then None else Some (pre, cs))
      else Some ('''', rawURL))"

definition getScheme :: "string \<Rightarrow> (string \<times> string) option" where
  "getScheme rawURL = getScheme_loop rawURL [] rawURL"

text \<open>
  \<^verbatim>\<open>unescape(s, mode)\<close> for the four modes that \<^verbatim>\<open>Parse\<close> uses. A percent sign must be
  followed by two hexadecimal digits. In a host, an escape may only stand for a byte
  from 0x80 on, or be \<^verbatim>\<open>%25\<close>; and an ASCII byte for which \<^verbatim>\<open>shouldEscape\<close> holds in host
  mode is the error \<^verbatim>\<open>invalid character in host name\<close>. The bytes a host may hold
  unescaped are the letters, the digits and \<^verbatim>\<open>! $ & ' ( ) * + , ; = : [ ] < > " - _ . ~\<close>.
\<close>

datatype encoding = encodePath | encodeHost | encodeUserPassword | encodeFragment

definition ishex :: "char \<Rightarrow> bool" where
  "ishex c \<longleftrightarrow> c \<in> set ''0123456789abcdefABCDEF''"

definition unhex :: "char \<Rightarrow> nat" where
  "unhex c =
     (case map_of (zip ''0123456789abcdefABCDEF''
                    [0, 1, 2, 3, 4, 5, 6, 7, 8, 9, 10, 11, 12, 13, 14, 15, 10, 11, 12, 13, 14, 15]) c of
        Some n \<Rightarrow> n
      | None \<Rightarrow> 0)"

definition shouldEscape_host :: "char \<Rightarrow> bool" where
  "shouldEscape_host c \<longleftrightarrow>
     \<not> (isAlpha c \<or> isDigit c \<or>
        c \<in> set ''!$&()*+,;=:[]<>'' \<or> c = CHR 0x27 \<or> c = CHR 0x22 \<or>
        c \<in> set ''-_.~'')"

fun unescape :: "encoding \<Rightarrow> string \<Rightarrow> string option" where
  "unescape mode [] = Some []"
| "unescape mode (c # cs) =
     (if c = CHR ''%'' then
        (case cs of
           a # b # rest \<Rightarrow>
             if \<not> (ishex a \<and> ishex b) then None
             else if mode = encodeHost \<and> unhex a < 8 \<and> \<not> (a = CHR ''2'' \<and> b = CHR ''5'') then None
             else map_option ((#) (char_of (16 * unhex a + unhex b))) (unescape mode rest)
         | _ \<Rightarrow> None)
      else if mode = encodeHost \<and> (of_char c :: nat) < 128 \<and> shouldEscape_host c then None
      else map_option ((#) c) (unescape mode cs))"

text \<open>\<^verbatim>\<open>validOptionalPort\<close>: empty, or a colon followed by decimal digits only.\<close>

definition validOptionalPort :: "string \<Rightarrow> bool" where
  "validOptionalPort port =
     (case port of
        [] \<Rightarrow> True
      | c # ds \<Rightarrow> c = CHR '':'' \<and> list_all isDigit ds)"

text \<open>
  Two checks of \<^verbatim>\<open>parseHost\<close> are not the same in every release of the library, and
  are arguments here: whether a colon before the one that starts the port is rejected
  (the setting \<^verbatim>\<open>urlstrictcolons\<close>), and what the branch for a host that starts with
  a bracket, an IP literal, accepts and returns.
\<close>

record net_url =
  urlstrictcolons :: bool
  parseIPLiteral :: "string \<Rightarrow> string option"

definition parseHost :: "net_url \<Rightarrow> string \<Rightarrow> string option" where
  "parseHost lib host =
     (if HasPrefix host ''['' then parseIPLiteral lib host
      else if CHR '':'' \<in> set host \<and>
              \<not> validOptionalPort (CHR '':'' # after_last (CHR '':'') host) then None
      else if CHR '':'' \<in> set host \<and> urlstrictcolons lib \<and>
              CHR '':'' \<in> set (before_last (CHR '':'') host) then None
      else unescape encodeHost host)"

text \<open>\<^verbatim>\<open>validUserinfo\<close>: every character is a letter, a digit or one of the listed
  ASCII marks.\<close>

definition validUserinfo :: "string \<Rightarrow> bool" where
  "validUserinfo s =
     list_all (\<lambda>c. isAlpha c \<or> isDigit c \<or> c \<in> set ''-._:~!$&()*+,;=%@'' \<or> c = CHR 0x27) s"

text \<open>
  \<^verbatim>\<open>parseAuthority\<close>: the host is what follows the last \<^verbatim>\<open>@\<close>, the user information
  what precedes it. The user information is checked and unescaped, as a whole or as
  user name and password around its first colon; it is not a field of \<^typ>\<open>url\<close>.
\<close>

definition parseAuthority :: "net_url \<Rightarrow> string \<Rightarrow> string option" where
  "parseAuthority lib authority =
     (if CHR ''@'' \<in> set authority then
        (let userinfo = before_last (CHR ''@'') authority
         in case parseHost lib (after_last (CHR ''@'') authority) of
              None \<Rightarrow> None
            | Some host \<Rightarrow>
                if \<not> validUserinfo userinfo then None
                else if CHR '':'' \<in> set userinfo then
                  (case unescape encodeUserPassword (cut_before (CHR '':'') userinfo) of
                     None \<Rightarrow> None
                   | Some username \<Rightarrow>
                       (case unescape encodeUserPassword (cut_after (CHR '':'') userinfo) of
                          None \<Rightarrow> None
                        | Some password \<Rightarrow> Some host))
                else
                  (case unescape encodeUserPassword userinfo of
                     None \<Rightarrow> None
                   | Some username \<Rightarrow> Some host))
      else parseHost lib authority)"

text \<open>
  \<^verbatim>\<open>parse(rawURL, false)\<close>: the check for control bytes, the scheme (in lower case), the
  query after the first question mark, then, for a rest that starts with two slashes,
  the authority up to the next slash and the path from that slash on. A rest that does
  not start with a slash is opaque when there is a scheme, and must have no colon in
  its first segment when there is none.
\<close>

definition parse :: "net_url \<Rightarrow> string \<Rightarrow> url option" where
  "parse lib rawURL =
     (if list_ex isCTL rawURL then None
      else if rawURL = ''*'' then
        Some \<lparr>url_Scheme = '''', url_Host = '''', url_Path = ''*'', url_RawQuery = ''''\<rparr>
      else
        (case getScheme rawURL of
           None \<Rightarrow> None
         | Some (scheme0, rest0) \<Rightarrow>
             (let scheme = map toLower scheme0;
                  forceQuery = (HasSuffix rest0 ''?'' \<and> count_list rest0 (CHR ''?'') = 1);
                  rest = (if forceQuery then butlast rest0 else cut_before (CHR ''?'') rest0);
                  rawQuery = (if forceQuery then '''' else cut_after (CHR ''?'') rest0)
              in if \<not> HasPrefix rest ''/'' \<and> scheme \<noteq> '''' then
                   Some \<lparr>url_Scheme = scheme, url_Host = '''', url_Path = '''',
                         url_RawQuery = rawQuery\<rparr>
                 else if \<not> HasPrefix rest ''/'' \<and>
                         CHR '':'' \<in> set (cut_before (CHR ''/'') rest) then None
                 else if \<not> (scheme = '''' \<and> HasPrefix rest ''///'') \<and> HasPrefix rest ''//'' then
                   (let authority = cut_before (CHR ''/'') (drop 2 rest);
                        rest' = dropWhile (\<lambda>c. c \<noteq> CHR ''/'') (drop 2 rest)
                    in case parseAuthority lib authority of
                         None \<Rightarrow> None
                       | Some host \<Rightarrow>
                           (case unescape encodePath rest' of
                              None \<Rightarrow> None
                            | Some path \<Rightarrow>
                                Some \<lparr>url_Scheme = scheme, url_Host = host, url_Path = path,
                                      url_RawQuery = rawQuery\<rparr>))
                 else
                   (case unescape encodePath rest of
                      None \<Rightarrow> None
                    | Some path \<Rightarrow>
                        Some \<lparr>url_Scheme = scheme, url_Host = '''', url_Path = path,
                              url_RawQuery = rawQuery\<rparr>))))"

text \<open>\<^verbatim>\<open>Parse\<close>: the fragment after the first \<^verbatim>\<open>#\<close> is cut off and, when it is not
  empty, unescaped.\<close>

definition Parse :: "net_url \<Rightarrow> string \<Rightarrow> url option" where
  "Parse lib rawURL =
     (case parse lib (cut_before (CHR ''#'') rawURL) of
        None \<Rightarrow> None
      | Some u \<Rightarrow>
          if cut_after (CHR ''#'') rawURL = '''' then Some u
          else (case unescape encodeFragment (cut_after (CHR ''#'') rawURL) of
                  None \<Rightarrow> None
                | Some fragment \<Rightarrow> Some u))"

text \<open>
  \<^verbatim>\<open>target, err := url.Parse(targetURL); if err != nil { log.Fatal(err) }\<close>: the target
  of a configuration, or \<^const>\<open>None\<close> when the program stops before it serves a request.
\<close>

definition target :: "net_url \<Rightarrow> Config \<Rightarrow> url option" where
  "target lib config = Parse lib (targetURL config)"

subsection \<open>The Director\<close>

text \<open>
  \<^verbatim>\<open>proxy.Director = func(req *http.Request) { ... }\<close>, one binding per statement. The
  closure reads \<^verbatim>\<open>target\<close>, here the first argument. Every later statement reads the
  request that the earlier ones have updated.
\<close>

definition Director :: "url \<Rightarrow> request \<Rightarrow> request" where
  "Director tgt req =
     (let req1 = req\<lparr>req_URL := (req_URL req)\<lparr>url_Scheme := url_Scheme tgt\<rparr>\<rparr>;
          req2 = req1\<lparr>req_URL := (req_URL req1)\<lparr>url_Host := url_Host tgt\<rparr>\<rparr>;
          req3 = req2\<lparr>req_Host := url_Host tgt\<rparr>;
          req4 = req3\<lparr>req_Header :=
                   header_Add (req_Header req3) ''X-Forwarded-Host'' (req_Host req3)\<rparr>;
          req5 = req4\<lparr>req_Header :=
                   header_Add (req_Header req4) ''X-Forwarded-Proto'' (url_Scheme (req_URL req4))\<rparr>;
          req6 = req5\<lparr>req_Header :=
                   header_Add (req_Header req5) ''X-Real-IP'' (req_RemoteAddr req5)\<rparr>
      in req6)"

subsection \<open>The response rewriter\<close>

text \<open>
  \<^verbatim>\<open>filepath.Ext\<close>: the loop runs from the last byte towards the first, stops at a path
  separator (the slash, on the Unix targets the program is built for) and returns the
  suffix that starts at the first dot it meets; with no dot in the last element of the
  path the extension is empty. The first argument is the part of the path still to be
  visited, last byte first; the second is the suffix already passed.
\<close>

fun Ext_loop :: "string \<Rightarrow> string \<Rightarrow> string" where
  "Ext_loop [] suffix = ''''"
| "Ext_loop (c # cs) suffix =
     (if c = CHR ''/'' then ''''
      else if c = CHR ''.'' then c # suffix
      else Ext_loop cs (c # suffix))"

definition Ext :: "string \<Rightarrow> string" where
  "Ext path = Ext_loop (rev path) []"

text \<open>
  \<^verbatim>\<open>proxy.ModifyResponse = func(resp *http.Response) error { ... }\<close>. The table behind
  \<^verbatim>\<open>mime.TypeByExtension\<close> is read from the host system, so the function is the argument
  \<open>TypeByExtension\<close>; it returns the empty string for an extension it does not know.
  \<^verbatim>\<open>resp.Request\<close> is the request the transport has sent, which it always sets. The
  process log is the list of the lines printed so far. The result is the response, the
  log and the returned \<^verbatim>\<open>error\<close>.
\<close>

definition ModifyResponse ::
  "(string \<Rightarrow> string) \<Rightarrow> response \<Rightarrow> string list \<Rightarrow> response \<times> string list \<times> error option"
where
  "ModifyResponse TypeByExtension resp lg =
     (let path = url_Path (req_URL (resp_Request resp));
          ext = Ext path
      in if ext \<noteq> '''' then
           (let correctMimeType = TypeByExtension ext
            in if correctMimeType \<noteq> '''' then
                 (let currentContentType = header_Get (resp_Header resp) ''Content-Type''
                  in if currentContentType = '''' \<or>
                        currentContentType = ''text/plain'' \<or>
                        currentContentType = ''application/octet-stream''
                     then (resp\<lparr>resp_Header :=
                                  header_Set (resp_Header resp) ''Content-Type'' correctMimeType\<rparr>,
                           lg @ [''Fixed MIME type for '' @ path @ '': '' @ currentContentType @
                                 '' -> '' @ correctMimeType],
                           None)
                     else (resp, lg, None))
               else (resp, lg, None))
         else (resp, lg, None))"

subsection \<open>The error handler\<close>







subsection \<open>The transport\<close>









subsection \<open>Concrete inputs\<close>

text \<open>The configuration of the usage example in the README with the target it parses
  to, a configuration whose upstream host carries a path, a request as the server
  hands it to the proxy (the request URI of a server request has no scheme and no host),
  and the same request with forwarding headers that the client has set itself.\<close>

definition example_config :: Config where
  "example_config =
     \<lparr>Host = ''0.0.0.0'', Port = 443, ProxyHost = ''127.0.0.1'', ProxyPort = 8443,
      CertFile = ''cert.crt'', KeyFile = ''key.pem''\<rparr>"

definition example_target :: url where
  "example_target =
     \<lparr>url_Scheme = ''http'', url_Host = ''127.0.0.1:8443'', url_Path = '''',
      url_RawQuery = ''''\<rparr>"



definition example_request :: request where
  "example_request =
     \<lparr>req_Method = ''GET'',
      req_URL = \<lparr>url_Scheme = '''', url_Host = '''', url_Path = ''/app.js'',
                 url_RawQuery = ''v=1''\<rparr>,
      req_Host = ''example.com'',
      req_Header = [''Accept'' \<mapsto> [''*/*'']],
      req_Body = '''',
      req_ContentLength = 0,
      req_RemoteAddr = ''203.0.113.7:51234''\<rparr>"

definition example_request_forwarded :: request where
  "example_request_forwarded =
     example_request\<lparr>req_Header :=
       [''Accept'' \<mapsto> [''*/*''],
        ''X-Forwarded-Host'' \<mapsto> [''client.example''],
        ''X-Forwarded-Proto'' \<mapsto> [''https''],
        ''X-Real-Ip'' \<mapsto> [''198.51.100.9'']]\<rparr>"

text \<open>An extension table that knows \<^verbatim>\<open>.js\<close> and \<^verbatim>\<open>.json\<close> only, and upstream responses
  to a request for a path, with a given Content-Type header or with none.\<close>

definition example_TypeByExtension :: "string \<Rightarrow> string" where
  "example_TypeByExtension ext =
     (if ext = ''.js'' then ''application/javascript''
      else if ext = ''.json'' then ''application/json''
      else '''')"

definition example_response :: "string \<Rightarrow> string list option \<Rightarrow> response" where
  "example_response path contentType =
     \<lparr>resp_StatusCode = 200,
      resp_Header = (\<lambda>k. if k = ''Content-Type'' then contentType else None),
      resp_Body = ''x'',
      resp_Request =
        example_request\<lparr>req_URL := (req_URL example_request)\<lparr>url_Path := path\<rparr>\<rparr>\<rparr>"




subsection \<open>Helper facts\<close>

lemmas char_class_defs =
  isAlpha_def isDigit_def isCTL_def lowerLetters_def upperLetters_def toLower_def
  shouldEscape_host_def ishex_def

lemmas string_fun_defs =
  HasPrefix_def HasSuffix_def cut_before_def cut_after_def before_last_def after_last_def

lemmas parse_defs =
  Parse_def parse_def parseAuthority_def parseHost_def validOptionalPort_def validUserinfo_def
  getScheme_def

lemma example_targetURL: "targetURL example_config = ''http://127.0.0.1:8443''"
  by (simp add: targetURL_def example_config_def itoa_def digits.simps)

lemma example_target_parsed: "target lib example_config = Some example_target"
  by (simp add: target_def example_targetURL example_target_def parse_defs string_fun_defs
      char_class_defs Let_def)



text \<open>\<^verbatim>\<open>url.Parse\<close> on some target URLs: user information, a negative port, a query, a
  fragment, a space in the host, a colon before the port separator, and an escaped
  byte in the path.\<close>

lemma Parse_examples:
  "Parse lib ''http://user@h:80'' =
     Some \<lparr>url_Scheme = ''http'', url_Host = ''h:80'', url_Path = '''', url_RawQuery = ''''\<rparr>"
  "Parse lib ''http://h:-1'' = None"
  "Parse lib ''http://h?x=1:80'' =
     Some \<lparr>url_Scheme = ''http'', url_Host = ''h'', url_Path = '''', url_RawQuery = ''x=1:80''\<rparr>"
  "Parse lib ''http://h#x:80'' =
     Some \<lparr>url_Scheme = ''http'', url_Host = ''h'', url_Path = '''', url_RawQuery = ''''\<rparr>"
  "Parse lib ''http://a b:80'' = None"
  "Parse lib ''http://::1:80'' =
     (if urlstrictcolons lib then None
      else Some \<lparr>url_Scheme = ''http'', url_Host = ''::1:80'', url_Path = '''',
                  url_RawQuery = ''''\<rparr>)"
  by (simp_all add: parse_defs string_fun_defs char_class_defs Let_def)

lemma Parse_example_escaped:
  "Parse lib ''HTTP://Example.COM:80/a%20b?q'' =
     Some \<lparr>url_Scheme = ''http'', url_Host = ''Example.COM:80'', url_Path = ''/a b'',
           url_RawQuery = ''q''\<rparr>"
  by (simp add: parse_defs string_fun_defs char_class_defs Let_def unhex_def) code_simp











lemma target_scheme:
  assumes "target lib config = Some tgt"
  shows "url_Scheme tgt = ''http''"
proof -
  let ?a = "ProxyHost config @ '':'' @ itoa (ProxyPort config)"
  let ?u = "cut_before (CHR ''#'') ?a"
  have cut: "cut_before (CHR ''#'') (targetURL config) = ''http://'' @ ?u"
    by (simp add: targetURL_def cut_before_def)
  have scheme: "getScheme (''http://'' @ ?u) = Some (''http'', ''//'' @ ?u)"
    by (simp add: getScheme_def isAlpha_def isDigit_def lowerLetters_def upperLetters_def)
  have lower: "map toLower ''http'' = ''http''"
    by (simp add: toLower_def lowerLetters_def upperLetters_def)
  have "url_Scheme u = ''http''" if "parse lib (''http://'' @ ?u) = Some u" for u
    using that unfolding parse_def
    by (auto simp add: scheme [simplified] toLower_def lowerLetters_def upperLetters_def
        Let_def split: if_splits option.splits)
  moreover from assms obtain u where "parse lib (''http://'' @ ?u) = Some u" and "tgt = u"
    by (auto simp add: target_def Parse_def cut split: option.splits if_splits)
  ultimately show ?thesis
    by simp
qed

lemma canonical_forwarded_host:
  "CanonicalMIMEHeaderKey ''X-Forwarded-Host'' = ''X-Forwarded-Host''"
  by (simp add: CanonicalMIMEHeaderKey_def validHeaderFieldByte_def toUpper_def toLower_def
      lowerLetters_def upperLetters_def Let_def)

lemma canonical_forwarded_proto:
  "CanonicalMIMEHeaderKey ''X-Forwarded-Proto'' = ''X-Forwarded-Proto''"
  by (simp add: CanonicalMIMEHeaderKey_def validHeaderFieldByte_def toUpper_def toLower_def
      lowerLetters_def upperLetters_def Let_def)

lemma canonical_real_ip:
  "CanonicalMIMEHeaderKey ''X-Real-IP'' = ''X-Real-Ip''"
  by (simp add: CanonicalMIMEHeaderKey_def validHeaderFieldByte_def toUpper_def toLower_def
      lowerLetters_def upperLetters_def Let_def)

lemma canonical_content_type:
  "CanonicalMIMEHeaderKey ''Content-Type'' = ''Content-Type''"
  by (simp add: CanonicalMIMEHeaderKey_def validHeaderFieldByte_def toUpper_def toLower_def
      lowerLetters_def upperLetters_def Let_def)

lemma Director_URL:
  "req_URL (Director tgt req) =
     (req_URL req)\<lparr>url_Scheme := url_Scheme tgt, url_Host := url_Host tgt\<rparr>"
  by (simp add: Director_def Let_def)

lemma Director_Host: "req_Host (Director tgt req) = url_Host tgt"
  by (simp add: Director_def Let_def)

lemma header_Add_same:
  "header_Add h key v (CanonicalMIMEHeaderKey key) =
     Some (header_values h (CanonicalMIMEHeaderKey key) @ [v])"
  by (simp add: header_Add_def Let_def)

lemma header_Add_other:
  "k \<noteq> CanonicalMIMEHeaderKey key \<Longrightarrow> header_Add h key v k = h k"
  by (simp add: header_Add_def Let_def)

lemma header_values_Add_same:
  "header_values (header_Add h key v) (CanonicalMIMEHeaderKey key) =
     header_values h (CanonicalMIMEHeaderKey key) @ [v]"
  by (simp add: header_values_def header_Add_same)

lemma header_values_Add_other:
  "k \<noteq> CanonicalMIMEHeaderKey key \<Longrightarrow>
     header_values (header_Add h key v) k = header_values h k"
  by (simp add: header_values_def header_Add_other)

lemma Director_Header:
  "req_Header (Director tgt req) =
     header_Add
       (header_Add
          (header_Add (req_Header req) ''X-Forwarded-Host'' (url_Host tgt))
          ''X-Forwarded-Proto'' (url_Scheme tgt))
       ''X-Real-IP'' (req_RemoteAddr req)"
  by (simp add: Director_def Let_def)

lemma Director_values_forwarded_host:
  "header_values (req_Header (Director tgt req)) ''X-Forwarded-Host'' =
     header_values (req_Header req) ''X-Forwarded-Host'' @ [url_Host tgt]"
proof -
  have "header_values (req_Header (Director tgt req)) ''X-Forwarded-Host'' =
        header_values (header_Add (req_Header req) ''X-Forwarded-Host'' (url_Host tgt))
          ''X-Forwarded-Host''"
    by (simp add: Director_Header header_values_Add_other canonical_real_ip
        canonical_forwarded_proto)
  also have "\<dots> = header_values (req_Header req) ''X-Forwarded-Host'' @ [url_Host tgt]"
    using header_values_Add_same [of "req_Header req" "''X-Forwarded-Host''" "url_Host tgt"]
    by (simp add: canonical_forwarded_host)
  finally show ?thesis .
qed

lemma Director_values_forwarded_proto:
  "header_values (req_Header (Director tgt req)) ''X-Forwarded-Proto'' =
     header_values (req_Header req) ''X-Forwarded-Proto'' @ [url_Scheme tgt]"
proof -
  let ?h1 = "header_Add (req_Header req) ''X-Forwarded-Host'' (url_Host tgt)"
  have "header_values (req_Header (Director tgt req)) ''X-Forwarded-Proto'' =
        header_values (header_Add ?h1 ''X-Forwarded-Proto'' (url_Scheme tgt))
          ''X-Forwarded-Proto''"
    by (simp add: Director_Header header_values_Add_other canonical_real_ip)
  also have "\<dots> = header_values ?h1 ''X-Forwarded-Proto'' @ [url_Scheme tgt]"
    using header_values_Add_same [of ?h1 "''X-Forwarded-Proto''" "url_Scheme tgt"]
    by (simp add: canonical_forwarded_proto)
  also have "header_values ?h1 ''X-Forwarded-Proto'' =
        header_values (req_Header req) ''X-Forwarded-Proto''"
    by (simp add: header_values_Add_other canonical_forwarded_host)
  finally show ?thesis .
qed

lemma Director_values_real_ip:
  "header_values (req_Header (Director tgt req)) ''X-Real-Ip'' =
     header_values (req_Header req) ''X-Real-Ip'' @ [req_RemoteAddr req]"
proof -
  let ?h1 = "header_Add (req_Header req) ''X-Forwarded-Host'' (url_Host tgt)"
  let ?h2 = "header_Add ?h1 ''X-Forwarded-Proto'' (url_Scheme tgt)"
  have "header_values (req_Header (Director tgt req)) ''X-Real-Ip'' =
        header_values ?h2 ''X-Real-Ip'' @ [req_RemoteAddr req]"
    using header_values_Add_same [of ?h2 "''X-Real-IP''" "req_RemoteAddr req"]
    by (simp add: Director_Header canonical_real_ip)
  also have "header_values ?h2 ''X-Real-Ip'' = header_values (req_Header req) ''X-Real-Ip''"
    by (simp add: header_values_Add_other canonical_forwarded_host canonical_forwarded_proto)
  finally show ?thesis .
qed

lemma Director_Header_other:
  assumes "k \<noteq> ''X-Forwarded-Host''" and "k \<noteq> ''X-Forwarded-Proto''" and "k \<noteq> ''X-Real-Ip''"
  shows "req_Header (Director tgt req) k = req_Header req k"
  using assms
  by (simp add: Director_Header header_Add_other canonical_forwarded_host
      canonical_forwarded_proto canonical_real_ip)

lemma Director_Header_present:
  "req_Header (Director tgt req) k \<noteq> None"
  if "k = ''X-Forwarded-Host'' \<or> k = ''X-Forwarded-Proto'' \<or> k = ''X-Real-Ip''"
  using that
  by (auto simp add: Director_Header header_Add_def Let_def canonical_forwarded_host
      canonical_forwarded_proto canonical_real_ip)

section \<open>The Director\<close>

text \<open>
  C1. Claim: after the Director runs, the request carries an appended X-Forwarded-Host
  header whose value is the host of the original request, not the host of the upstream
  target. The Director assigns \<^verbatim>\<open>req.Host = target.Host\<close> before it reads \<^verbatim>\<open>req.Host\<close> for
  the header, so the value it appends is the host of the upstream target: for the request
  to \<^verbatim>\<open>example.com\<close>, relayed to \<^verbatim>\<open>127.0.0.1:8443\<close>, the header holds \<^verbatim>\<open>127.0.0.1:8443\<close>
  and the original host is nowhere in the outbound request.
\<close>

theorem C1_forwarded_host_is_upstream_host:
  "target lib example_config = Some example_target \<and>
   req_Host example_request = ''example.com'' \<and>
   header_values (req_Header (Director example_target example_request))
     ''X-Forwarded-Host'' = [''127.0.0.1:8443''] \<and>
   req_Host (Director example_target example_request) = ''127.0.0.1:8443''"
  by (simp add: example_target_parsed Director_values_forwarded_host Director_Host)
    (simp add: example_request_def example_target_def header_values_def)




text \<open>
  C6. A request that already carries X-Forwarded-Host, X-Forwarded-Proto or X-Real-IP
  keeps the values the client supplied: the Director appends its own value after them.
  (The server stores a header under its canonical key, which for \<^verbatim>\<open>X-Real-IP\<close> is
  \<^verbatim>\<open>X-Real-Ip\<close>.)
\<close>

theorem C6_forwarding_headers_are_appended:
  "(req_Header req (CanonicalMIMEHeaderKey ''X-Forwarded-Host'') = Some vs \<longrightarrow>
      req_Header (Director tgt req) (CanonicalMIMEHeaderKey ''X-Forwarded-Host'') =
        Some (vs @ [url_Host tgt])) \<and>
   (req_Header req (CanonicalMIMEHeaderKey ''X-Forwarded-Proto'') = Some vs \<longrightarrow>
      req_Header (Director tgt req) (CanonicalMIMEHeaderKey ''X-Forwarded-Proto'') =
        Some (vs @ [url_Scheme tgt])) \<and>
   (req_Header req (CanonicalMIMEHeaderKey ''X-Real-IP'') = Some vs \<longrightarrow>
      req_Header (Director tgt req) (CanonicalMIMEHeaderKey ''X-Real-IP'') =
        Some (vs @ [req_RemoteAddr req]))"
proof -
  have present: "header_values h k = ws \<Longrightarrow> h k \<noteq> None \<Longrightarrow> h k = Some ws"
    for h :: header and k ws
    by (auto simp add: header_values_def)
  have old: "h k = Some vs \<Longrightarrow> header_values h k = vs" for h :: header and k
    by (simp add: header_values_def)
  show ?thesis
    unfolding canonical_forwarded_host canonical_forwarded_proto canonical_real_ip
  proof (intro conjI impI)
    assume "req_Header req ''X-Forwarded-Host'' = Some vs"
    then show "req_Header (Director tgt req) ''X-Forwarded-Host'' = Some (vs @ [url_Host tgt])"
      by (intro present) (simp_all add: Director_values_forwarded_host old Director_Header_present)
  next
    assume "req_Header req ''X-Forwarded-Proto'' = Some vs"
    then show "req_Header (Director tgt req) ''X-Forwarded-Proto'' =
        Some (vs @ [url_Scheme tgt])"
      by (intro present) (simp_all add: Director_values_forwarded_proto old Director_Header_present)
  next
    assume "req_Header req ''X-Real-Ip'' = Some vs"
    then show "req_Header (Director tgt req) ''X-Real-Ip'' = Some (vs @ [req_RemoteAddr req])"
      by (intro present) (simp_all add: Director_values_real_ip old Director_Header_present)
  qed
qed

theorem C6_forwarding_headers_are_appended_witness:
  "req_Header example_request_forwarded (CanonicalMIMEHeaderKey ''X-Forwarded-Host'') =
     Some [''client.example''] \<and>
   req_Header (Director example_target example_request_forwarded)
     (CanonicalMIMEHeaderKey ''X-Forwarded-Host'') = Some [''client.example'', ''127.0.0.1:8443''] \<and>
   req_Header example_request_forwarded (CanonicalMIMEHeaderKey ''X-Forwarded-Proto'') =
     Some [''https''] \<and>
   req_Header (Director example_target example_request_forwarded)
     (CanonicalMIMEHeaderKey ''X-Forwarded-Proto'') = Some [''https'', ''http''] \<and>
   req_Header example_request_forwarded (CanonicalMIMEHeaderKey ''X-Real-IP'') =
     Some [''198.51.100.9''] \<and>
   req_Header (Director example_target example_request_forwarded)
     (CanonicalMIMEHeaderKey ''X-Real-IP'') = Some [''198.51.100.9'', ''203.0.113.7:51234'']"
proof -
  have h1: "req_Header example_request_forwarded (CanonicalMIMEHeaderKey ''X-Forwarded-Host'') =
      Some [''client.example'']"
    by (simp add: example_request_forwarded_def canonical_forwarded_host)
  have h2: "req_Header example_request_forwarded (CanonicalMIMEHeaderKey ''X-Forwarded-Proto'') =
      Some [''https'']"
    by (simp add: example_request_forwarded_def canonical_forwarded_proto)
  have h3: "req_Header example_request_forwarded (CanonicalMIMEHeaderKey ''X-Real-IP'') =
      Some [''198.51.100.9'']"
    by (simp add: example_request_forwarded_def canonical_real_ip)
  have r: "req_RemoteAddr example_request_forwarded = ''203.0.113.7:51234''"
    by (simp add: example_request_forwarded_def example_request_def)
  show ?thesis
    using h1 h2 h3 r
      C6_forwarding_headers_are_appended
        [of example_request_forwarded "[''client.example'']" example_target]
      C6_forwarding_headers_are_appended
        [of example_request_forwarded "[''https'']" example_target]
      C6_forwarding_headers_are_appended
        [of example_request_forwarded "[''198.51.100.9'']" example_target]
    by (simp add: example_target_def)
qed

text \<open>
  C7. The Director alters the scheme and the host of the URL, the Host field and the
  three forwarding headers only: the request it returns is the request it was given
  with these fields updated, so the method, the body, the path, the query string, the
  remote address and every other header are the ones of the inbound request.
\<close>

theorem C7_director_alters_nothing_else:
  "Director tgt req =
     req\<lparr>req_URL := (req_URL req)\<lparr>url_Scheme := url_Scheme tgt, url_Host := url_Host tgt\<rparr>,
         req_Host := url_Host tgt,
         req_Header := req_Header (Director tgt req)\<rparr> \<and>
   req_Method (Director tgt req) = req_Method req \<and>
   req_Body (Director tgt req) = req_Body req \<and>
   url_RawQuery (req_URL (Director tgt req)) = url_RawQuery (req_URL req) \<and>
   url_Path (req_URL (Director tgt req)) = url_Path (req_URL req) \<and>
   req_RemoteAddr (Director tgt req) = req_RemoteAddr req \<and>
   (\<forall>k. k \<notin> {CanonicalMIMEHeaderKey ''X-Forwarded-Host'',
              CanonicalMIMEHeaderKey ''X-Forwarded-Proto'',
              CanonicalMIMEHeaderKey ''X-Real-IP''} \<longrightarrow>
        req_Header (Director tgt req) k = req_Header req k)"
proof (intro conjI allI impI)
  show "Director tgt req =
     req\<lparr>req_URL := (req_URL req)\<lparr>url_Scheme := url_Scheme tgt, url_Host := url_Host tgt\<rparr>,
         req_Host := url_Host tgt,
         req_Header := req_Header (Director tgt req)\<rparr>"
    by (simp add: Director_def Let_def)
next
  fix k
  assume "k \<notin> {CanonicalMIMEHeaderKey ''X-Forwarded-Host'',
              CanonicalMIMEHeaderKey ''X-Forwarded-Proto'',
              CanonicalMIMEHeaderKey ''X-Real-IP''}"
  then have "k \<noteq> ''X-Forwarded-Host''" and "k \<noteq> ''X-Forwarded-Proto''" and "k \<noteq> ''X-Real-Ip''"
    by (simp_all add: canonical_forwarded_host canonical_forwarded_proto canonical_real_ip)
  then show "req_Header (Director tgt req) k = req_Header req k"
    by (rule Director_Header_other)
qed (simp_all add: Director_def Let_def)

theorem C7_director_alters_nothing_else_witness:
  "''Accept'' \<notin> {CanonicalMIMEHeaderKey ''X-Forwarded-Host'',
                  CanonicalMIMEHeaderKey ''X-Forwarded-Proto'',
                  CanonicalMIMEHeaderKey ''X-Real-IP''} \<and>
   req_Header (Director example_target example_request) ''Accept'' = Some [''*/*''] \<and>
   req_Method (Director example_target example_request) = ''GET'' \<and>
   req_Body (Director example_target example_request) = '''' \<and>
   url_RawQuery (req_URL (Director example_target example_request)) = ''v=1'' \<and>
   url_Path (req_URL (Director example_target example_request)) = ''/app.js''"
proof -
  have h: "''Accept'' \<notin> {CanonicalMIMEHeaderKey ''X-Forwarded-Host'',
                  CanonicalMIMEHeaderKey ''X-Forwarded-Proto'',
                  CanonicalMIMEHeaderKey ''X-Real-IP''}"
    by (simp add: canonical_forwarded_host canonical_forwarded_proto canonical_real_ip)
  have e: "req_Header example_request ''Accept'' = Some [''*/*'']"
      "req_Method example_request = ''GET''" "req_Body example_request = ''''"
      "url_RawQuery (req_URL example_request) = ''v=1''"
      "url_Path (req_URL example_request) = ''/app.js''"
    by (simp_all add: example_request_def)
  from C7_director_alters_nothing_else [of example_target example_request]
  have frame:
    "req_Method (Director example_target example_request) = req_Method example_request"
    "req_Body (Director example_target example_request) = req_Body example_request"
    "url_RawQuery (req_URL (Director example_target example_request)) =
       url_RawQuery (req_URL example_request)"
    "url_Path (req_URL (Director example_target example_request)) =
       url_Path (req_URL example_request)"
    "\<forall>k. k \<notin> {CanonicalMIMEHeaderKey ''X-Forwarded-Host'',
              CanonicalMIMEHeaderKey ''X-Forwarded-Proto'',
              CanonicalMIMEHeaderKey ''X-Real-IP''} \<longrightarrow>
        req_Header (Director example_target example_request) k =
        req_Header example_request k"
    by blast+
  from frame(5) h
  have "req_Header (Director example_target example_request) ''Accept'' =
        req_Header example_request ''Accept''"
    by blast
  with h e frame(1-4) show ?thesis
    by simp
qed

text \<open>
  C10. The value the Director appends to X-Forwarded-Proto is the scheme it has just
  written into the URL, the scheme of the upstream target: the constant \<^verbatim>\<open>http\<close>, for
  every configuration with which the program starts and every request, and never
  \<^verbatim>\<open>https\<close>.
\<close>

theorem C10_forwarded_proto_is_http:
  "header_values (req_Header (Director tgt req))
     (CanonicalMIMEHeaderKey ''X-Forwarded-Proto'') =
     header_values (req_Header req) (CanonicalMIMEHeaderKey ''X-Forwarded-Proto'') @
       [url_Scheme (req_URL (Director tgt req))] \<and>
   (target lib config = Some tgt \<longrightarrow>
      header_values (req_Header (Director tgt req))
        (CanonicalMIMEHeaderKey ''X-Forwarded-Proto'') =
        header_values (req_Header req) (CanonicalMIMEHeaderKey ''X-Forwarded-Proto'') @ [''http''] \<and>
      last (header_values (req_Header (Director tgt req))
        (CanonicalMIMEHeaderKey ''X-Forwarded-Proto'')) \<noteq> ''https'')"
proof (intro conjI impI)
  show "header_values (req_Header (Director tgt req))
     (CanonicalMIMEHeaderKey ''X-Forwarded-Proto'') =
     header_values (req_Header req) (CanonicalMIMEHeaderKey ''X-Forwarded-Proto'') @
       [url_Scheme (req_URL (Director tgt req))]"
    by (simp add: canonical_forwarded_proto Director_values_forwarded_proto Director_URL)
next
  assume "target lib config = Some tgt"
  then have s: "url_Scheme tgt = ''http''"
    by (rule target_scheme)
  show "header_values (req_Header (Director tgt req))
        (CanonicalMIMEHeaderKey ''X-Forwarded-Proto'') =
        header_values (req_Header req) (CanonicalMIMEHeaderKey ''X-Forwarded-Proto'') @ [''http'']"
    by (simp add: canonical_forwarded_proto Director_values_forwarded_proto s)
  show "last (header_values (req_Header (Director tgt req))
        (CanonicalMIMEHeaderKey ''X-Forwarded-Proto'')) \<noteq> ''https''"
    by (simp add: canonical_forwarded_proto Director_values_forwarded_proto s)
qed

theorem C10_forwarded_proto_is_http_witness:
  "target \<lparr>urlstrictcolons = True, parseIPLiteral = (\<lambda>host. None)\<rparr> example_config =
     Some example_target \<and>
   header_values (req_Header example_request_forwarded)
     (CanonicalMIMEHeaderKey ''X-Forwarded-Proto'') = [''https''] \<and>
   header_values (req_Header (Director example_target example_request_forwarded))
     (CanonicalMIMEHeaderKey ''X-Forwarded-Proto'') = [''https'', ''http''] \<and>
   last (header_values (req_Header (Director example_target example_request_forwarded))
     (CanonicalMIMEHeaderKey ''X-Forwarded-Proto'')) \<noteq> ''https''"
proof -
  let ?lib = "\<lparr>urlstrictcolons = True, parseIPLiteral = (\<lambda>host. None)\<rparr>"
  have t: "target ?lib example_config = Some example_target"
    by (rule example_target_parsed)
  have v: "header_values (req_Header example_request_forwarded)
      (CanonicalMIMEHeaderKey ''X-Forwarded-Proto'') = [''https'']"
    by (simp add: example_request_forwarded_def canonical_forwarded_proto header_values_def)
  show ?thesis
    using t v
      C10_forwarded_proto_is_http [of example_target example_request_forwarded ?lib example_config]
    by (simp add: Director_URL example_target_def)
qed

section \<open>The response rewriter\<close>

lemma Ext_examples:
  "Ext ''/app.js'' = ''.js''"
  "Ext ''/data.json'' = ''.json''"
  "Ext ''/v1.2/README'' = ''''"
  "Ext ''/backup.tar.gz'' = ''.gz''"
  "Ext ''/notes.xyz'' = ''.xyz''"
  by (simp_all add: Ext_def)

lemma header_Get_Set_same: "header_Get (header_Set h key v) key = v"
  by (simp add: header_Get_def header_Set_def header_values_def)

lemma example_response_Get:
  "header_Get (resp_Header (example_response path (Some [ct]))) ''Content-Type'' = ct"
  "header_Get (resp_Header (example_response path None)) ''Content-Type'' = ''''"
  by (simp_all add: example_response_def header_Get_def header_values_def canonical_content_type)

lemma example_response_path:
  "url_Path (req_URL (resp_Request (example_response path contentType))) = path"
  by (simp add: example_response_def)

text \<open>
  C3. When the Content-Type of the upstream response is exactly empty, \<^verbatim>\<open>text/plain\<close> or
  \<^verbatim>\<open>application/octet-stream\<close>, the path of the request has an extension and the
  extension maps to a MIME type, the rewriter replaces the Content-Type header by that
  type: it becomes the only value of the header, and the one the client reads. The log
  receives the record of the change.
\<close>

theorem C3_generic_content_type_is_overwritten:
  assumes "header_Get (resp_Header resp) ''Content-Type'' \<in>
             {'''', ''text/plain'', ''application/octet-stream''}"
    and "Ext (url_Path (req_URL (resp_Request resp))) \<noteq> ''''"
    and "TypeByExtension (Ext (url_Path (req_URL (resp_Request resp)))) \<noteq> ''''"
  shows "resp_Header (fst (ModifyResponse TypeByExtension resp lg))
           (CanonicalMIMEHeaderKey ''Content-Type'') =
           Some [TypeByExtension (Ext (url_Path (req_URL (resp_Request resp))))] \<and>
         header_Get (resp_Header (fst (ModifyResponse TypeByExtension resp lg))) ''Content-Type'' =
           TypeByExtension (Ext (url_Path (req_URL (resp_Request resp)))) \<and>
         fst (snd (ModifyResponse TypeByExtension resp lg)) =
           lg @ [''Fixed MIME type for '' @ url_Path (req_URL (resp_Request resp)) @ '': '' @
                 header_Get (resp_Header resp) ''Content-Type'' @ '' -> '' @
                 TypeByExtension (Ext (url_Path (req_URL (resp_Request resp))))]"
proof -
  let ?path = "url_Path (req_URL (resp_Request resp))"
  let ?mime = "TypeByExtension (Ext ?path)"
  let ?ct = "header_Get (resp_Header resp) ''Content-Type''"
  from assms(1) have generic:
    "?ct = '''' \<or> ?ct = ''text/plain'' \<or> ?ct = ''application/octet-stream''"
    by simp
  with assms(2,3)
  have run: "ModifyResponse TypeByExtension resp lg =
      (resp\<lparr>resp_Header := header_Set (resp_Header resp) ''Content-Type'' ?mime\<rparr>,
       lg @ [''Fixed MIME type for '' @ ?path @ '': '' @ ?ct @ '' -> '' @ ?mime],
       None)"
    by (simp add: ModifyResponse_def Let_def)
  show ?thesis
    unfolding run by (simp add: header_Get_Set_same) (simp add: header_Set_def)
qed

theorem C3_generic_content_type_is_overwritten_witness:
  "header_Get (resp_Header (example_response ''/app.js'' (Some [''text/plain''])))
     ''Content-Type'' \<in> {'''', ''text/plain'', ''application/octet-stream''} \<and>
   Ext (url_Path (req_URL (resp_Request (example_response ''/app.js'' (Some [''text/plain'']))))) =
     ''.js'' \<and>
   example_TypeByExtension ''.js'' = ''application/javascript'' \<and>
   header_Get
     (resp_Header (fst (ModifyResponse example_TypeByExtension
        (example_response ''/app.js'' (Some [''text/plain''])) [])))
     ''Content-Type'' = ''application/javascript'' \<and>
   fst (snd (ModifyResponse example_TypeByExtension
        (example_response ''/app.js'' (Some [''text/plain''])) [])) =
     [''Fixed MIME type for /app.js: text/plain -> application/javascript'']"
proof -
  let ?resp = "example_response ''/app.js'' (Some [''text/plain''])"
  have h1: "header_Get (resp_Header ?resp) ''Content-Type'' \<in>
      {'''', ''text/plain'', ''application/octet-stream''}"
    by (simp add: example_response_Get)
  have ext: "Ext (url_Path (req_URL (resp_Request ?resp))) = ''.js''"
    by (simp add: example_response_path Ext_examples)
  have mime: "example_TypeByExtension ''.js'' = ''application/javascript''"
    by (simp add: example_TypeByExtension_def)
  have h2: "Ext (url_Path (req_URL (resp_Request ?resp))) \<noteq> ''''"
    by (simp add: ext)
  have h3: "example_TypeByExtension (Ext (url_Path (req_URL (resp_Request ?resp)))) \<noteq> ''''"
    by (simp add: ext mime)
  show ?thesis
    using h1 ext mime
      C3_generic_content_type_is_overwritten
        [where resp = "?resp" and TypeByExtension = example_TypeByExtension and lg = "[]",
         OF h1 h2 h3]
    by (simp add: example_response_path example_response_Get)
qed

text \<open>
  C4. When the Content-Type of the upstream response is anything but empty,
  \<^verbatim>\<open>text/plain\<close> and \<^verbatim>\<open>application/octet-stream\<close>, or the path has no extension, or the
  extension maps to no MIME type, the rewriter returns the response as it received it,
  so the Content-Type header is unchanged; it logs nothing.
\<close>

theorem C4_other_content_type_is_unchanged:
  assumes "header_Get (resp_Header resp) ''Content-Type'' \<notin>
             {'''', ''text/plain'', ''application/octet-stream''} \<or>
           Ext (url_Path (req_URL (resp_Request resp))) = '''' \<or>
           TypeByExtension (Ext (url_Path (req_URL (resp_Request resp)))) = ''''"
  shows "fst (ModifyResponse TypeByExtension resp lg) = resp \<and>
         resp_Header (fst (ModifyResponse TypeByExtension resp lg)) = resp_Header resp \<and>
         fst (snd (ModifyResponse TypeByExtension resp lg)) = lg"
proof -
  have "ModifyResponse TypeByExtension resp lg = (resp, lg, None)"
    using assms by (auto simp add: ModifyResponse_def Let_def)
  then show ?thesis
    by simp
qed

theorem C4_other_content_type_is_unchanged_witness:
  "header_Get (resp_Header (example_response ''/data.json'' (Some [''application/json''])))
     ''Content-Type'' \<notin> {'''', ''text/plain'', ''application/octet-stream''} \<and>
   example_TypeByExtension (Ext ''/data.json'') = ''application/json'' \<and>
   resp_Header (fst (ModifyResponse example_TypeByExtension
     (example_response ''/data.json'' (Some [''application/json''])) [])) =
     resp_Header (example_response ''/data.json'' (Some [''application/json''])) \<and>
   Ext (url_Path (req_URL (resp_Request
     (example_response ''/v1.2/README'' (Some [''text/plain'']))))) = '''' \<and>
   resp_Header (fst (ModifyResponse example_TypeByExtension
     (example_response ''/v1.2/README'' (Some [''text/plain''])) [])) =
     resp_Header (example_response ''/v1.2/README'' (Some [''text/plain''])) \<and>
   example_TypeByExtension (Ext (url_Path (req_URL (resp_Request
     (example_response ''/notes.xyz'' None))))) = '''' \<and>
   resp_Header (fst (ModifyResponse example_TypeByExtension
     (example_response ''/notes.xyz'' None) [])) =
     resp_Header (example_response ''/notes.xyz'' None)"
proof -
  let ?json = "example_response ''/data.json'' (Some [''application/json''])"
  let ?readme = "example_response ''/v1.2/README'' (Some [''text/plain''])"
  let ?notes = "example_response ''/notes.xyz'' None"
  have a: "header_Get (resp_Header ?json) ''Content-Type'' \<notin>
      {'''', ''text/plain'', ''application/octet-stream''}"
    by (simp add: example_response_Get)
  have a': "example_TypeByExtension (Ext ''/data.json'') = ''application/json''"
    by (simp add: Ext_examples example_TypeByExtension_def)
  have b: "Ext (url_Path (req_URL (resp_Request ?readme))) = ''''"
    by (simp add: example_response_path Ext_examples)
  have c: "example_TypeByExtension (Ext (url_Path (req_URL (resp_Request ?notes)))) = ''''"
    by (simp add: example_response_path Ext_examples example_TypeByExtension_def)
  show ?thesis
    using a a' b c
      C4_other_content_type_is_unchanged
        [where resp = "?json" and TypeByExtension = example_TypeByExtension and lg = "[]"]
      C4_other_content_type_is_unchanged
        [where resp = "?readme" and TypeByExtension = example_TypeByExtension and lg = "[]"]
      C4_other_content_type_is_unchanged
        [where resp = "?notes" and TypeByExtension = example_TypeByExtension and lg = "[]"]
    by simp
qed

text \<open>
  C8. The rewriter never fails the exchange: for every response, every extension table
  and every log, the error it returns is \<^verbatim>\<open>nil\<close>. The status and the body of the response
  it hands back, modified or not, are those of the upstream response.
\<close>

theorem C8_rewriter_returns_nil:
  "snd (snd (ModifyResponse TypeByExtension resp lg)) = None \<and>
   resp_StatusCode (fst (ModifyResponse TypeByExtension resp lg)) = resp_StatusCode resp \<and>
   resp_Body (fst (ModifyResponse TypeByExtension resp lg)) = resp_Body resp"
  by (simp add: ModifyResponse_def Let_def)

text \<open>
  C9. The test for a generic type is equality with the whole value of the header. A
  value that carries parameters after \<^verbatim>\<open>text/plain\<close>, such as
  \<^verbatim>\<open>text/plain; charset=utf-8\<close>, is not generic: the rewriter returns the response
  unchanged and logs nothing, whatever the path and the extension table.
\<close>

theorem C9_parameters_defeat_the_generic_test:
  assumes "header_Get (resp_Header resp) ''Content-Type'' = ''text/plain'' @ params"
    and "params \<noteq> ''''"
  shows "fst (ModifyResponse TypeByExtension resp lg) = resp \<and>
         fst (snd (ModifyResponse TypeByExtension resp lg)) = lg"
proof -
  from assms have "header_Get (resp_Header resp) ''Content-Type'' \<noteq> ''''"
    and "header_Get (resp_Header resp) ''Content-Type'' \<noteq> ''text/plain''"
    and "header_Get (resp_Header resp) ''Content-Type'' \<noteq> ''application/octet-stream''"
    by simp_all
  then have "ModifyResponse TypeByExtension resp lg = (resp, lg, None)"
    by (simp add: ModifyResponse_def Let_def)
  then show ?thesis
    by simp
qed

theorem C9_parameters_defeat_the_generic_test_witness:
  "header_Get (resp_Header (example_response ''/app.js'' (Some [''text/plain; charset=utf-8''])))
     ''Content-Type'' = ''text/plain'' @ ''; charset=utf-8'' \<and>
   ''; charset=utf-8'' \<noteq> '''' \<and>
   example_TypeByExtension (Ext ''/app.js'') = ''application/javascript'' \<and>
   header_Get (resp_Header (fst (ModifyResponse example_TypeByExtension
       (example_response ''/app.js'' (Some [''text/plain; charset=utf-8''])) [])))
     ''Content-Type'' = ''text/plain; charset=utf-8'' \<and>
   fst (snd (ModifyResponse example_TypeByExtension
       (example_response ''/app.js'' (Some [''text/plain; charset=utf-8''])) [])) = []"
proof -
  let ?resp = "example_response ''/app.js'' (Some [''text/plain; charset=utf-8''])"
  have h1: "header_Get (resp_Header ?resp) ''Content-Type'' = ''text/plain'' @ ''; charset=utf-8''"
    by (simp add: example_response_Get)
  have h2: "''; charset=utf-8'' \<noteq> ''''"
    by simp
  have m: "example_TypeByExtension (Ext ''/app.js'') = ''application/javascript''"
    by (simp add: Ext_examples example_TypeByExtension_def)
  show ?thesis
    using h1 m
      C9_parameters_defeat_the_generic_test
        [where resp = "?resp" and params = "''; charset=utf-8''"
           and TypeByExtension = example_TypeByExtension and lg = "[]", OF h1 h2]
    by (simp add: example_response_Get)
qed

section \<open>The error handler\<close>





end
